theory Spec2Isabelle
  imports Main "HOL-Library.Word"
begin

section \<open>Primitive types\<close>

text \<open>
  Go's \<open>uint64\<close> (and the named types over it: \<open>math.U64\<close>, \<open>primitives.Slot\<close>,
  \<open>primitives.Epoch\<close>) is a 64-bit word: \<open>+\<close> and \<open>-\<close> wrap around, comparison is
  unsigned. Execution hashes and 32-byte values are fixed-size byte arrays, compared by
  value with \<open>==\<close>; they are 256-bit words here.
\<close>

type_synonym u64 = "64 word"
type_synonym ExecutionHash = "256 word"
type_synonym Bytes32 = "256 word"

section \<open>Errors\<close>

text \<open>
  A Go \<open>error\<close> is a value; \<open>nil\<close> is \<open>None\<close> of \<open>error option\<close>. The errors the
  sources build themselves are constructors: the two sentinels of \<open>beacontypes\<close>, the
  \<open>errors.New("invalid payload")\<close> of the payload validation, and the three
  \<open>errors.Newf\<close> of the payload verifier, each carrying the arguments of its format
  string in the order the source passes them. An error handed back by a collaborator
  (state accessor, engine client, forkchoice store, deposit contract) is \<open>External\<close>
  with its message: \<open>errors.New\<close> allocates a fresh value at each call, so no
  collaborator can return the value built here.
\<close>

datatype error =
    ErrNilBlkBody
  | ErrNilPayload
  | InvalidPayload
  | UnfinalizedParent ExecutionHash ExecutionHash
  | RandaoMismatch Bytes32 Bytes32
  | TooManyWithdrawals u64 nat
  | External string

section \<open>The log cache (beacon/execution/logs/cache.go)\<close>

text \<open>
  \<open>Cache\<close> is the struct of the source, field by field. A slice is a list; Go's
  \<open>nil\<close> slice is the empty list (\<open>append\<close> and \<open>len\<close> do not tell them apart).
  \<open>LogValueContainer\<close> is an interface of the repository whose declaration is not
  among the sources; the cache only stores its values, so it is the type parameter.
\<close>

record 'c Cache =
  finalStore :: "'c list"
  lastFinalizedBlock :: u64
  processingStore :: "'c list"

text \<open>Of \<open>ethtypes.Log\<close> the cache reads one field.\<close>

record Log =
  BlockNumber :: u64

text \<open>The zero value of the struct: what a fresh cache holds.\<close>

definition emptyCache :: "'c Cache" where
  "emptyCache = \<lparr>finalStore = [], lastFinalizedBlock = 0, processingStore = []\<rparr>"

definition ShouldProcess :: "'c Cache \<Rightarrow> Log \<Rightarrow> bool" where
  "ShouldProcess c log = (BlockNumber log > lastFinalizedBlock c)"

text \<open>
  \<open>Push\<close> returns an \<open>error\<close>, always \<open>nil\<close>: the result is the pair of the returned
  error (\<open>None\<close> for \<open>nil\<close>) and the cache after the call.
\<close>

definition Push :: "'c Cache \<Rightarrow> 'c \<Rightarrow> error option \<times> 'c Cache" where
  "Push c container = (None, c\<lparr>processingStore := processingStore c @ [container]\<rparr>)"

definition LastFinalizedBlock :: "'c Cache \<Rightarrow> u64" where
  "LastFinalizedBlock c = lastFinalizedBlock c"

definition SetLastFinalizedBlock :: "'c Cache \<Rightarrow> u64 \<Rightarrow> 'c Cache" where
  "SetLastFinalizedBlock c blockNumber =
     c\<lparr>lastFinalizedBlock := blockNumber,
       finalStore := finalStore c @ processingStore c,
       processingStore := []\<rparr>"

definition Rollback :: "'c Cache \<Rightarrow> 'c Cache" where
  "Rollback c = c\<lparr>processingStore := []\<rparr>"

subsection \<open>Sequences of calls\<close>

text \<open>
  A call of one of the three mutating methods, and the cache after a sequence of calls
  made one after the other (the cache is not safe for concurrent use and the source
  takes no lock: the caller serialises).
\<close>

datatype 'c cache_call = CallPush 'c | CallSetLastFinalizedBlock u64 | CallRollback

fun call :: "'c Cache \<Rightarrow> 'c cache_call \<Rightarrow> 'c Cache" where
  "call c (CallPush x) = snd (Push c x)"
| "call c (CallSetLastFinalizedBlock n) = SetLastFinalizedBlock c n"
| "call c CallRollback = Rollback c"

fun calls :: "'c Cache \<Rightarrow> 'c cache_call list \<Rightarrow> 'c Cache" where
  "calls c [] = c"
| "calls c (x # xs) = calls (call c x) xs"

text \<open>The values \<open>LastFinalizedBlock\<close> returns after each call of a sequence, in order.\<close>

fun observed :: "'c Cache \<Rightarrow> 'c cache_call list \<Rightarrow> u64 list" where
  "observed c [] = []"
| "observed c (x # xs) = LastFinalizedBlock (call c x) # observed (call c x) xs"

text \<open>
  Read off the sequence of calls alone, without the cache: the entries pushed since the
  last \<open>SetLastFinalizedBlock\<close> or \<open>Rollback\<close> are the arguments of the longest run of
  \<open>Push\<close> calls that ends the sequence.
\<close>

fun isPush :: "'c cache_call \<Rightarrow> bool" where
  "isPush (CallPush x) = True"
| "isPush (CallSetLastFinalizedBlock n) = False"
| "isPush CallRollback = False"

fun pushed :: "'c cache_call list \<Rightarrow> 'c list" where
  "pushed [] = []"
| "pushed (CallPush x # xs) = x # pushed xs"
| "pushed (CallSetLastFinalizedBlock n # xs) = pushed xs"
| "pushed (CallRollback # xs) = pushed xs"

definition pushedSince :: "'c cache_call list \<Rightarrow> 'c list" where
  "pushedSince xs = pushed (rev (takeWhile isPush (rev xs)))"

text \<open>
  Also read off the calls alone: the entries a sequence of calls has finalized. A run of
  \<open>Push\<close> calls counts when a \<open>SetLastFinalizedBlock\<close> ends it and is dropped when a
  \<open>Rollback\<close> ends it; a run that nothing has ended yet is not finalized. The first
  argument is the run collected so far.
\<close>

fun finalized :: "'c list \<Rightarrow> 'c cache_call list \<Rightarrow> 'c list" where
  "finalized run [] = []"
| "finalized run (CallPush x # xs) = finalized (run @ [x]) xs"
| "finalized run (CallSetLastFinalizedBlock n # xs) = run @ finalized [] xs"
| "finalized run (CallRollback # xs) = finalized [] xs"

text \<open>
  The arguments of the \<open>SetLastFinalizedBlock\<close> calls of a sequence never go below the
  value the cache holds when the call is made.
\<close>

fun finalizesUpwards :: "u64 \<Rightarrow> 'c cache_call list \<Rightarrow> bool" where
  "finalizesUpwards cur [] = True"
| "finalizesUpwards cur (CallPush x # xs) = finalizesUpwards cur xs"
| "finalizesUpwards cur (CallSetLastFinalizedBlock n # xs) = (cur \<le> n \<and> finalizesUpwards n xs)"
| "finalizesUpwards cur (CallRollback # xs) = finalizesUpwards cur xs"

section \<open>Payloads, blocks and beacon state\<close>

text \<open>
  The interfaces \<open>ExecutionPayload\<close>, \<open>ReadOnlyBeaconBlock\<close>, its body and
  \<open>BeaconState\<close> are declared outside the sources at hand; the functions below only
  call their methods. A value of such an interface is the record of what its methods
  return, under the method's name (prefixed where two interfaces share a name). The
  getters are read twice in places (\<open>blk.GetBody()\<close>) and return the same value each
  time. The receivers are interface values that hold something: a method call on the
  \<open>nil\<close> interface does not reach the method. Whether the value held answers \<open>IsNil()\<close>
  with true is a field of its own, as is the state accessor's \<open>(value, error)\<close> pair, a
  sum with the collaborator's error message on the left.
\<close>

record Withdrawal =
  Index :: u64
  Validator :: u64
  Address :: "160 word"
  Amount :: u64

record ExecutionPayload =
  IsNil :: bool
  GetBlockHash :: ExecutionHash
  GetParentHash :: ExecutionHash
  GetPrevRandao :: Bytes32
  GetWithdrawals :: "Withdrawal list"

record ExecutionPayloadHeader =
  hdr_GetBlockHash :: ExecutionHash

record BeaconBlockBody =
  body_IsNil :: bool
  GetExecutionPayload :: ExecutionPayload
  GetBlobKzgCommitments :: "384 word list"

record BeaconBlock =
  blk_IsNil :: bool
  GetBody :: BeaconBlockBody
  blk_GetSlot :: u64
  GetParentBlockRoot :: Bytes32

record BeaconState =
  GetLatestExecutionPayloadHeader :: "string + ExecutionPayloadHeader"
  GetLatestExecutionPayload :: "string + ExecutionPayload"
  GetSlot :: "string + u64"
  GetRandaoMixAtIndex :: "u64 \<Rightarrow> string + Bytes32"

text \<open>
  \<open>primitives.ChainSpec\<close> is not among the sources either: the verifier calls three of
  its methods, which are the fields.
\<close>

record ChainSpec =
  SlotToEpoch :: "u64 \<Rightarrow> u64"
  EpochsPerHistoricalVector :: u64
  MaxWithdrawalsPerPayload :: u64

text \<open>
  A call either returns or panics. The one panic the functions below can raise by their
  own arithmetic is Go's integer division by zero in \<open>%\<close>.
\<close>

datatype 'a outcome = Returns 'a | Panics

section \<open>The payload verifier (package verification)\<close>

text \<open>
  \<open>VerifyPayload\<close>, statement by statement. \<open>uint64(len(ws)) > max\<close> compares a slice
  length, which fits 63 bits, with a \<open>uint64\<close>: the comparison is on naturals.
\<close>

definition VerifyPayload :: "ChainSpec \<Rightarrow> BeaconState \<Rightarrow> ExecutionPayload \<Rightarrow> error option outcome" where
  "VerifyPayload cs st payload =
     (case GetLatestExecutionPayloadHeader st of
        Inl err \<Rightarrow> Returns (Some (External err))
      | Inr latestExecutionPayloadHeader \<Rightarrow>
          let safeHash = hdr_GetBlockHash latestExecutionPayloadHeader in
          if safeHash \<noteq> GetParentHash payload
          then Returns (Some (UnfinalizedParent (GetParentHash payload) safeHash))
          else
            (case GetSlot st of
               Inl err \<Rightarrow> Returns (Some (External err))
             | Inr slot \<Rightarrow>
                 if EpochsPerHistoricalVector cs = 0 then Panics
                 else
                   (case GetRandaoMixAtIndex st
                           (SlotToEpoch cs slot mod EpochsPerHistoricalVector cs) of
                      Inl err \<Rightarrow> Returns (Some (External err))
                    | Inr expectedMix \<Rightarrow>
                        if GetPrevRandao payload \<noteq> expectedMix
                        then Returns (Some (RandaoMismatch expectedMix (GetPrevRandao payload)))
                        else if length (GetWithdrawals payload) > unat (MaxWithdrawalsPerPayload cs)
                        then Returns (Some (TooManyWithdrawals (MaxWithdrawalsPerPayload cs)
                                              (length (GetWithdrawals payload))))
                        else Returns None)))"

section \<open>The deposit service (package deposit)\<close>

text \<open>
  The service is generic in the block, event, store and deposit types; the handler uses
  the event's context and its block's slot, the contract's \<open>GetDeposits\<close> and the
  \<open>EnqueueDeposits\<close> of the store that the storage backend gives for the context.
  The two collaborators are function fields; what the handler calls, and with what, is
  the list of calls it returns beside its error. \<open>NewService\<close> also stores the feed and
  the logger, which the handler's result does not depend on; the follow distance it sets
  is the constant 1.
\<close>

record DepositBlock =
  dep_GetSlot :: u64

record 'x BlockEvent =
  Context :: 'x
  Block :: DepositBlock

record ('x, 'd) DepositService =
  dc_GetDeposits :: "'x \<Rightarrow> u64 \<Rightarrow> string + 'd list"
  sb_EnqueueDeposits :: "'x \<Rightarrow> 'd list \<Rightarrow> string option"
  eth1FollowDistance :: u64

datatype ('x, 'd) deposit_call =
    LogInfo u64
  | GetDeposits 'x u64
  | EnqueueDeposits 'x "'d list"

definition NewService ::
  "('x \<Rightarrow> 'd list \<Rightarrow> string option) \<Rightarrow> ('x \<Rightarrow> u64 \<Rightarrow> string + 'd list) \<Rightarrow> ('x, 'd) DepositService" where
  "NewService sb dc = \<lparr>dc_GetDeposits = dc, sb_EnqueueDeposits = sb, eth1FollowDistance = 1\<rparr>"

definition handleDepositEvent ::
  "('x, 'd) DepositService \<Rightarrow> 'x BlockEvent \<Rightarrow> error option \<times> ('x, 'd) deposit_call list" where
  "handleDepositEvent s e =
     (let slot = dep_GetSlot (Block e) - eth1FollowDistance s in
      case dc_GetDeposits s (Context e) slot of
        Inl err \<Rightarrow> (Some (External err), [LogInfo slot, GetDeposits (Context e) slot])
      | Inr deposits \<Rightarrow>
          (case sb_EnqueueDeposits s (Context e) deposits of
             Some err \<Rightarrow>
               (Some (External err),
                [LogInfo slot, GetDeposits (Context e) slot, EnqueueDeposits (Context e) deposits])
           | None \<Rightarrow>
               (None,
                [LogInfo slot, GetDeposits (Context e) slot, EnqueueDeposits (Context e) deposits])))"

section \<open>The blockchain service (package blockchain)\<close>

text \<open>
  The service's collaborators are function fields: the block validator \<open>bv\<close>, the state
  processor \<open>sp\<close>, the payload validator \<open>pv\<close>, the execution service \<open>es\<close>, the
  execution engine \<open>ee\<close>, the forkchoice store and the KZG conversion. Each returns its
  \<open>error\<close> as an optional message; the two that mutate a store return the store after
  the call as well. The payload validator is the repository's own and returns an
  \<open>error\<close> of the datatype above. \<open>s.BeaconState(ctx)\<close> and \<open>s.AvailabilityStore(ctx)\<close>
  are fields too; the functions that can change them return the service after the call.
\<close>

datatype Version = Deneb

record ForkchoiceState =
  HeadBlockHash :: ExecutionHash
  SafeBlockHash :: ExecutionHash
  FinalizedBlockHash :: ExecutionHash

record ForkchoiceUpdateRequest =
  State :: ForkchoiceState
  ForkVersion :: Version

record ('avs, 'blobs) Service =
  s_BeaconState :: BeaconState
  s_AvailabilityStore :: 'avs
  bv_ValidateBlock :: "BeaconState \<Rightarrow> BeaconBlock \<Rightarrow> string option"
  sp_ProcessBlobs :: "'avs \<Rightarrow> BeaconBlock \<Rightarrow> 'blobs \<Rightarrow> string option \<times> 'avs"
  sp_ProcessBlock :: "BeaconState \<Rightarrow> BeaconBlock \<Rightarrow> string option \<times> BeaconState"
  pv_ValidatePayload :: "BeaconState \<Rightarrow> BeaconBlock \<Rightarrow> error option"
  es_NotifyNewPayload ::
    "u64 \<Rightarrow> ExecutionPayload \<Rightarrow> Bytes32 list \<Rightarrow> Bytes32 \<Rightarrow> bool \<times> string option"
  es_ProcessLogsInETH1Block :: "ExecutionHash \<Rightarrow> string option"
  fc_InsertNode :: "ExecutionHash \<Rightarrow> string option"
  ee_NotifyForkchoiceUpdate :: "ForkchoiceUpdateRequest \<Rightarrow> string option"
  kzg_ConvertCommitmentsToVersionedHashes :: "384 word list \<Rightarrow> Bytes32 list"

text \<open>
  What a function did besides returning: its calls to collaborators, its log lines and,
  for the deferred call of \<open>PostBlockProcess\<close>, the call of \<open>sendPostBlockFCU\<close> with its
  argument. The argument is a variable of interface type: \<open>None\<close> is the \<open>nil\<close> interface
  (the variable's zero value), \<open>Some p\<close> an interface holding \<open>p\<close>.
\<close>

datatype action =
    ValidatePayload
  | NotifyNewPayload u64 ExecutionPayload "Bytes32 list" Bytes32
  | ValidateBlock
  | ProcessBlobs
  | ProcessBlock
  | InsertNode ExecutionHash
  | ProcessLogsInETH1Block ExecutionHash
  | SendPostBlockFCU "ExecutionPayload option"
  | NotifyForkchoiceUpdate ForkchoiceUpdateRequest
  | Println string
  | LogError string

definition ValidateExecutionPayloadOnBlk ::
  "('avs, 'blobs) Service \<Rightarrow> BeaconBlock \<Rightarrow> error option \<times> action list" where
  "ValidateExecutionPayloadOnBlk s blk =
     (let body = GetBody blk in
      if body_IsNil body then (Some ErrNilBlkBody, [])
      else
        let payload = GetExecutionPayload (GetBody blk) in
        if IsNil payload then (Some ErrNilPayload, [])
        else
          (case pv_ValidatePayload s (s_BeaconState s) blk of
             Some err \<Rightarrow> (Some err, [ValidatePayload])
           | None \<Rightarrow>
               let hashes = kzg_ConvertCommitmentsToVersionedHashes s (GetBlobKzgCommitments body);
                   notified = NotifyNewPayload (blk_GetSlot blk) payload hashes (GetParentBlockRoot blk)
               in
               (case es_NotifyNewPayload s (blk_GetSlot blk) payload hashes (GetParentBlockRoot blk) of
                  (isValidPayload, Some err) \<Rightarrow> (Some (External err), [ValidatePayload, notified])
                | (isValidPayload, None) \<Rightarrow>
                    if \<not> isValidPayload then (Some InvalidPayload, [ValidatePayload, notified])
                    else (None, [ValidatePayload, notified]))))"

text \<open>
  \<open>errgroup\<close>: \<open>g.Wait()\<close> blocks until every function given to \<open>g.Go\<close> has returned and
  gives the first non-nil error recorded. When both functions of a wave fail, which of
  the two is recorded first is the scheduler's choice, a parameter here.
\<close>

datatype race = FirstRecorded | SecondRecorded

definition Wait :: "race \<Rightarrow> error option \<Rightarrow> error option \<Rightarrow> error option" where
  "Wait r e1 e2 =
     (case (e1, e2) of
        (None, None) \<Rightarrow> None
      | (Some a, None) \<Rightarrow> Some a
      | (None, Some b) \<Rightarrow> Some b
      | (Some a, Some b) \<Rightarrow> (case r of FirstRecorded \<Rightarrow> Some a | SecondRecorded \<Rightarrow> Some b))"

text \<open>
  \<open>ProcessBeaconBlock\<close>: two waves on one group. The functions of a wave run
  concurrently; the two of the second wave work on different stores. The calls of a
  wave are listed in the order of the \<open>g.Go\<close> statements.
\<close>

definition ProcessBeaconBlock ::
  "('avs, 'blobs) Service \<Rightarrow> race \<Rightarrow> race \<Rightarrow> BeaconBlock \<Rightarrow> 'blobs
     \<Rightarrow> error option \<times> ('avs, 'blobs) Service \<times> action list" where
  "ProcessBeaconBlock s r1 r2 blk blobs =
     (let avs = s_AvailabilityStore s;
          st = s_BeaconState s;
          (payloadErr, payloadCalls) = ValidateExecutionPayloadOnBlk s blk;
          blockErr = map_option External (bv_ValidateBlock s st blk);
          wave1 = payloadCalls @ [ValidateBlock]
      in
      case Wait r1 payloadErr blockErr of
        Some err \<Rightarrow> (Some err, s, wave1)
      | None \<Rightarrow>
          let (blobsErr, avs') = sp_ProcessBlobs s avs blk blobs;
              (processErr, st') = sp_ProcessBlock s (s_BeaconState s) blk
          in
          (Wait r2 (map_option External blobsErr) (map_option External processErr),
           s\<lparr>s_BeaconState := st', s_AvailabilityStore := avs'\<rparr>,
           wave1 @ [ProcessBlobs, ProcessBlock]))"

text \<open>
  \<open>sendFCU\<close> and \<open>sendPostBlockFCU\<close> (the forkchoice file of the package). \<open>sendFCU\<close>
  returns the error of the engine call; \<open>sendPostBlockFCU\<close> returns nothing, so its
  model is the list of what it did.
\<close>

definition sendFCU ::
  "('avs, 'blobs) Service \<Rightarrow> BeaconState \<Rightarrow> ExecutionHash \<Rightarrow> error option \<times> action list" where
  "sendFCU s st headEth1Hash =
     (case GetLatestExecutionPayload st of
        Inl err \<Rightarrow> (Some (External err), [])
      | Inr latestExecutionPayload \<Rightarrow>
          let eth1BlockHash = GetBlockHash latestExecutionPayload;
              request = \<lparr>State = \<lparr>HeadBlockHash = headEth1Hash,
                                  SafeBlockHash = eth1BlockHash,
                                  FinalizedBlockHash = eth1BlockHash\<rparr>,
                         ForkVersion = Deneb\<rparr>
          in (map_option External (ee_NotifyForkchoiceUpdate s request),
              [Println ''LIGHT SEND FCU'', NotifyForkchoiceUpdate request]))"

definition sendPostBlockFCU ::
  "('avs, 'blobs) Service \<Rightarrow> BeaconState \<Rightarrow> ExecutionPayload option \<Rightarrow> action list" where
  "sendPostBlockFCU s st payload =
     (let resolved =
            (case payload of
               Some p \<Rightarrow> Inr (GetBlockHash p)
             | None \<Rightarrow>
                 (case GetLatestExecutionPayload st of
                    Inl err \<Rightarrow> Inl err
                  | Inr latestExecutionPayload \<Rightarrow> Inr (GetBlockHash latestExecutionPayload)))
      in
      case resolved of
        Inl err \<Rightarrow> [LogError ''failed to get latest execution payload in postBlockProcess'']
      | Inr headHash \<Rightarrow>
          (case sendFCU s st headHash of
             (Some err, done) \<Rightarrow>
               done @ [LogError ''failed to send forkchoice update in postBlockProcess'']
           | (None, done) \<Rightarrow> done))"

text \<open>
  \<open>PostBlockProcess\<close>. The body assigns the local \<open>payload\<close> and returns; the deferred
  function then reads the variable through its pointer and calls \<open>sendPostBlockFCU\<close>.
  \<open>postBlockBody\<close> is the body: the returned error, the variable at the return and the
  calls made. \<open>PostBlockProcess\<close> runs the deferred call after it. The call site
  passes the context and the payload; \<open>sendPostBlockFCU\<close> as the forkchoice file has
  it takes the beacon state as well, which is the one the service gives for the context.
\<close>

definition postBlockBody ::
  "('avs, 'blobs) Service \<Rightarrow> BeaconBlock \<Rightarrow> error option \<times> ExecutionPayload option \<times> action list" where
  "postBlockBody s blk =
     (if blk_IsNil blk then (None, None, [])
      else
        let body = GetBody blk in
        if body_IsNil body then (None, None, [])
        else
          let payload = GetExecutionPayload (GetBody blk) in
          if IsNil payload then (None, Some payload, [])
          else
            let payloadBlockHash = GetBlockHash payload in
            (case fc_InsertNode s payloadBlockHash of
               Some err \<Rightarrow> (Some (External err), Some payload, [InsertNode payloadBlockHash])
             | None \<Rightarrow>
                 (case es_ProcessLogsInETH1Block s payloadBlockHash of
                    Some err \<Rightarrow>
                      (Some (External err), Some payload,
                       [InsertNode payloadBlockHash, ProcessLogsInETH1Block payloadBlockHash,
                        LogError ''failed to process logs''])
                  | None \<Rightarrow>
                      (None, Some payload,
                       [InsertNode payloadBlockHash, ProcessLogsInETH1Block payloadBlockHash]))))"

definition PostBlockProcess ::
  "('avs, 'blobs) Service \<Rightarrow> BeaconBlock \<Rightarrow> error option \<times> action list" where
  "PostBlockProcess s blk =
     (case postBlockBody s blk of
        (err, payload, done) \<Rightarrow>
          (err, done @ SendPostBlockFCU payload # sendPostBlockFCU s (s_BeaconState s) payload))"

text \<open>
  The head hash of the forkchoice update that \<open>sendPostBlockFCU\<close> sends, when it sends
  one.
\<close>

fun notifiedHead :: "action list \<Rightarrow> ExecutionHash option" where
  "notifiedHead [] = None"
| "notifiedHead (NotifyForkchoiceUpdate r # cs) = Some (HeadBlockHash (State r))"
| "notifiedHead (c # cs) = notifiedHead cs"

text \<open>Whether an action is a call of \<open>sendPostBlockFCU\<close>.\<close>

definition isSendPostBlockFCU :: "action \<Rightarrow> bool" where
  "isSendPostBlockFCU a = (case a of SendPostBlockFCU p \<Rightarrow> True | _ \<Rightarrow> False)"

section \<open>Concrete inputs\<close>

text \<open>
  Inputs on which the functions above are run further down: a chain specification with
  32 slots to the epoch, a historical vector of 8 epochs and at most 16 withdrawals; a
  beacon state at slot 64 whose latest execution payload and header have block hash
  \<open>0xAA\<close>; a payload that extends it; a payload value that answers \<open>IsNil()\<close> with true;
  a block around a payload; and a service all of whose collaborators succeed.
\<close>

definition testSpec :: ChainSpec where
  "testSpec = \<lparr>SlotToEpoch = (\<lambda>slot. slot div 32),
               EpochsPerHistoricalVector = 8,
               MaxWithdrawalsPerPayload = 16\<rparr>"

definition latestPayload :: ExecutionPayload where
  "latestPayload = \<lparr>IsNil = False, GetBlockHash = 0xAA, GetParentHash = 0xA9,
                    GetPrevRandao = 6, GetWithdrawals = []\<rparr>"

definition testState :: BeaconState where
  "testState = \<lparr>GetLatestExecutionPayloadHeader = Inr \<lparr>hdr_GetBlockHash = 0xAA\<rparr>,
                GetLatestExecutionPayload = Inr latestPayload,
                GetSlot = Inr 64,
                GetRandaoMixAtIndex = (\<lambda>i. if i = 2 then Inr 7 else Inr 0)\<rparr>"

definition someWithdrawal :: Withdrawal where
  "someWithdrawal = \<lparr>Index = 0, Validator = 0, Address = 0, Amount = 1\<rparr>"

definition payloadWith :: "Withdrawal list \<Rightarrow> ExecutionPayload" where
  "payloadWith ws = \<lparr>IsNil = False, GetBlockHash = 0xBB, GetParentHash = 0xAA,
                     GetPrevRandao = 7, GetWithdrawals = ws\<rparr>"

definition nilPayload :: ExecutionPayload where
  "nilPayload = \<lparr>IsNil = True, GetBlockHash = 0, GetParentHash = 0,
                 GetPrevRandao = 0, GetWithdrawals = []\<rparr>"

definition blockWith :: "ExecutionPayload \<Rightarrow> BeaconBlock" where
  "blockWith p = \<lparr>blk_IsNil = False,
                  GetBody = \<lparr>body_IsNil = False, GetExecutionPayload = p,
                             GetBlobKzgCommitments = []\<rparr>,
                  blk_GetSlot = 65,
                  GetParentBlockRoot = 1\<rparr>"

definition blockWithNilBody :: BeaconBlock where
  "blockWithNilBody = \<lparr>blk_IsNil = False,
                       GetBody = \<lparr>body_IsNil = True, GetExecutionPayload = nilPayload,
                                  GetBlobKzgCommitments = []\<rparr>,
                       blk_GetSlot = 65,
                       GetParentBlockRoot = 1\<rparr>"

definition quietService :: "(nat, unit) Service" where
  "quietService = \<lparr>s_BeaconState = testState,
                   s_AvailabilityStore = 0,
                   bv_ValidateBlock = (\<lambda>st blk. None),
                   sp_ProcessBlobs = (\<lambda>avs blk blobs. (None, Suc avs)),
                   sp_ProcessBlock = (\<lambda>st blk. (None, st\<lparr>GetSlot := Inr (blk_GetSlot blk)\<rparr>)),
                   pv_ValidatePayload = (\<lambda>st blk. None),
                   es_NotifyNewPayload = (\<lambda>slot payload hashes root. (True, None)),
                   es_ProcessLogsInETH1Block = (\<lambda>h. None),
                   fc_InsertNode = (\<lambda>h. None),
                   ee_NotifyForkchoiceUpdate = (\<lambda>r. None),
                   kzg_ConvertCommitmentsToVersionedHashes = (\<lambda>cs. [])\<rparr>"

text \<open>
  The same service with an engine that answers \<open>NotifyNewPayload\<close> with "not valid"
  and no error, and with one that cannot be reached.
\<close>

definition rejectingService :: "(nat, unit) Service" where
  "rejectingService =
     quietService\<lparr>es_NotifyNewPayload := (\<lambda>slot payload hashes root. (False, None))\<rparr>"

definition unreachableService :: "(nat, unit) Service" where
  "unreachableService =
     quietService\<lparr>es_NotifyNewPayload :=
        (\<lambda>slot payload hashes root. (False, Some ''connection refused''))\<rparr>"

text \<open>The rejecting service with a block validator that fails as well.\<close>

definition failingService :: "(nat, unit) Service" where
  "failingService = rejectingService\<lparr>bv_ValidateBlock := (\<lambda>st blk. Some ''bad block'')\<rparr>"

text \<open>
  A deposit contract that answers every slot with one deposit, recognisable by the slot
  asked for, and a deposit store that accepts what it is given.
\<close>

definition slotContract :: "unit \<Rightarrow> u64 \<Rightarrow> string + u64 list" where
  "slotContract ctx slot = Inr [slot]"

definition acceptingStore :: "unit \<Rightarrow> u64 list \<Rightarrow> string option" where
  "acceptingStore ctx deposits = None"

section \<open>Properties of the log cache\<close>

lemma calls_append: "calls c (xs @ ys) = calls (calls c xs) ys"
  by (induction xs arbitrary: c) simp_all

lemma pushed_append: "pushed (xs @ ys) = pushed xs @ pushed ys"
  by (induction xs rule: pushed.induct) simp_all

lemma pushedSince_snoc_push: "pushedSince (xs @ [CallPush x]) = pushedSince xs @ [x]"
  by (simp add: pushedSince_def pushed_append)

lemma pushedSince_snoc_commit: "pushedSince (xs @ [CallSetLastFinalizedBlock n]) = []"
  by (simp add: pushedSince_def)

lemma pushedSince_snoc_rollback: "pushedSince (xs @ [CallRollback]) = []"
  by (simp add: pushedSince_def)

text \<open>
  The processing store after any sequence of calls from a cache whose processing store
  is empty holds exactly the entries pushed since the last commit or rollback.
\<close>

lemma processingStore_calls:
  assumes "processingStore c = []"
  shows "processingStore (calls c xs) = pushedSince xs"
proof (induction xs rule: rev_induct)
  case Nil
  show ?case using assms by (simp add: pushedSince_def)
next
  case (snoc a xs)
  show ?case
  proof (cases a)
    case (CallPush x)
    then show ?thesis
      using snoc by (simp add: calls_append pushedSince_snoc_push Push_def)
  next
    case (CallSetLastFinalizedBlock n)
    then show ?thesis
      by (simp add: calls_append pushedSince_snoc_commit SetLastFinalizedBlock_def)
  next
    case CallRollback
    then show ?thesis
      by (simp add: calls_append pushedSince_snoc_rollback Rollback_def)
  qed
qed

lemma calls_pushes_finalStore: "finalStore (calls c (map CallPush es)) = finalStore c"
  by (induction es arbitrary: c) (simp_all add: Push_def)

lemma calls_pushes_lastFinalizedBlock:
  "lastFinalizedBlock (calls c (map CallPush es)) = lastFinalizedBlock c"
  by (induction es arbitrary: c) (simp_all add: Push_def)

lemma calls_pushes_processingStore:
  "processingStore (calls c (map CallPush es)) = processingStore c @ es"
  by (induction es arbitrary: c) (simp_all add: Push_def)

lemma observed_from:
  "finalizesUpwards (lastFinalizedBlock c) xs \<Longrightarrow> \<forall>v \<in> set (observed c xs). lastFinalizedBlock c \<le> v"
proof (induction xs arbitrary: c)
  case Nil
  show ?case by simp
next
  case (Cons a xs)
  show ?case
  proof (cases a)
    case (CallPush x)
    with Cons.prems have "finalizesUpwards (lastFinalizedBlock (call c a)) xs"
      by (simp add: Push_def)
    from Cons.IH [OF this] show ?thesis
      by (simp add: CallPush Push_def LastFinalizedBlock_def)
  next
    case (CallSetLastFinalizedBlock n)
    with Cons.prems have le: "lastFinalizedBlock c \<le> n"
      and "finalizesUpwards (lastFinalizedBlock (call c a)) xs"
      by (simp_all add: SetLastFinalizedBlock_def)
    from Cons.IH [OF this(2)] le show ?thesis
      by (auto simp: CallSetLastFinalizedBlock SetLastFinalizedBlock_def LastFinalizedBlock_def)
  next
    case CallRollback
    with Cons.prems have "finalizesUpwards (lastFinalizedBlock (call c a)) xs"
      by (simp add: Rollback_def)
    from Cons.IH [OF this] show ?thesis
      by (simp add: CallRollback Rollback_def LastFinalizedBlock_def)
  qed
qed

lemma observed_sorted:
  "finalizesUpwards (lastFinalizedBlock c) xs \<Longrightarrow> sorted (observed c xs)"
proof (induction xs arbitrary: c)
  case Nil
  show ?case by simp
next
  case (Cons a xs)
  have step: "finalizesUpwards (lastFinalizedBlock (call c a)) xs"
    using Cons.prems
    by (cases a) (simp_all add: Push_def SetLastFinalizedBlock_def Rollback_def)
  from observed_from [OF step] Cons.IH [OF step] show ?case
    by (simp add: LastFinalizedBlock_def)
qed

text \<open>
  The final store after any sequence of calls, from any cache: what it held, followed by
  what the calls finalized, the entries already in the processing store being the run
  in progress.
\<close>

lemma finalStore_calls:
  "finalStore (calls c xs) = finalStore c @ finalized (processingStore c) xs"
proof (induction xs arbitrary: c)
  case Nil
  show ?case by simp
next
  case (Cons a xs)
  show ?case
  proof (cases a)
    case (CallPush x)
    show ?thesis
      using Cons.IH [of "call c a"] by (simp add: CallPush Push_def)
  next
    case (CallSetLastFinalizedBlock n)
    show ?thesis
      using Cons.IH [of "call c a"]
      by (simp add: CallSetLastFinalizedBlock SetLastFinalizedBlock_def)
  next
    case CallRollback
    show ?thesis
      using Cons.IH [of "call c a"] by (simp add: CallRollback Rollback_def)
  qed
qed

lemma finalized_rolled_back:
  "finalized [] [CallPush (1::nat), CallRollback, CallPush 2, CallSetLastFinalizedBlock 1,
                 CallPush 3] = [2]"
  by simp

text \<open>
  C2. From the empty cache, after any sequence of \<open>Push\<close>, \<open>SetLastFinalizedBlock\<close> and
  \<open>Rollback\<close> calls, \<open>finalStore\<close> holds exactly the entries the sequence has finalized:
  the runs of pushes that a \<open>SetLastFinalizedBlock\<close> ended, in order, and none of those
  a \<open>Rollback\<close> ended. A call \<open>SetLastFinalizedBlock(n)\<close> then leaves in \<open>finalStore\<close>
  these previously finalized entries, followed by exactly the entries pushed since the
  last \<open>SetLastFinalizedBlock\<close> or \<open>Rollback\<close>, and leaves \<open>processingStore\<close> empty.
\<close>

theorem SetLastFinalizedBlock_commits_pushedSince:
  "finalStore (calls emptyCache xs) = finalized [] xs
   \<and> finalStore (calls emptyCache (xs @ [CallSetLastFinalizedBlock n]))
     = finalized [] xs @ pushedSince xs
   \<and> processingStore (calls emptyCache (xs @ [CallSetLastFinalizedBlock n])) = []
   \<and> finalStore (SetLastFinalizedBlock (calls emptyCache xs) n)
     = finalStore (calls emptyCache xs) @ pushedSince xs
   \<and> processingStore (SetLastFinalizedBlock (calls emptyCache xs) n) = []
   \<and> calls emptyCache (xs @ [CallSetLastFinalizedBlock n])
     = SetLastFinalizedBlock (calls emptyCache xs) n"
proof -
  have e: "processingStore (emptyCache :: 'a Cache) = []" "finalStore (emptyCache :: 'a Cache) = []"
    by (simp_all add: emptyCache_def)
  have f: "finalStore (calls (emptyCache :: 'a Cache) xs) = finalized [] xs"
    using finalStore_calls [of "emptyCache :: 'a Cache" xs] by (simp add: e)
  have p: "processingStore (calls (emptyCache :: 'a Cache) xs) = pushedSince xs"
    using e(1) by (rule processingStore_calls)
  have s: "calls (emptyCache :: 'a Cache) (xs @ [CallSetLastFinalizedBlock n])
     = SetLastFinalizedBlock (calls emptyCache xs) n"
    by (simp add: calls_append)
  have a: "finalStore (SetLastFinalizedBlock (calls (emptyCache :: 'a Cache) xs) n)
     = finalized [] xs @ pushedSince xs"
    by (simp add: SetLastFinalizedBlock_def f p)
  have b: "processingStore (SetLastFinalizedBlock (calls (emptyCache :: 'a Cache) xs) n) = []"
    by (simp add: SetLastFinalizedBlock_def)
  from f s a b show ?thesis by simp
qed

text \<open>
  C3, as the code has it. \<open>Push\<close> and \<open>Rollback\<close> leave the value returned by
  \<open>LastFinalizedBlock\<close> as it is and \<open>SetLastFinalizedBlock(n)\<close> makes it \<open>n\<close>, whatever it
  was. So the values returned after each call of a sequence never decrease when every
  \<open>SetLastFinalizedBlock\<close> of the sequence is given a number not below the current one.
\<close>

theorem LastFinalizedBlock_follows_arguments:
  "LastFinalizedBlock (snd (Push c x)) = LastFinalizedBlock c
   \<and> LastFinalizedBlock (Rollback c) = LastFinalizedBlock c
   \<and> LastFinalizedBlock (SetLastFinalizedBlock c n) = n
   \<and> (finalizesUpwards (LastFinalizedBlock c) xs
        \<longrightarrow> sorted (LastFinalizedBlock c # observed c xs))"
proof -
  have "finalizesUpwards (lastFinalizedBlock c) xs \<Longrightarrow> sorted (lastFinalizedBlock c # observed c xs)"
    using observed_from [of c xs] observed_sorted [of c xs] by simp
  then show ?thesis
    by (simp add: LastFinalizedBlock_def Push_def Rollback_def SetLastFinalizedBlock_def)
qed

theorem LastFinalizedBlock_follows_arguments_witness:
  "finalizesUpwards (LastFinalizedBlock (emptyCache :: nat Cache))
       [CallPush 7, CallSetLastFinalizedBlock 5, CallRollback, CallSetLastFinalizedBlock 5,
        CallPush 8, CallSetLastFinalizedBlock 9 :: nat cache_call]
   \<and> sorted (LastFinalizedBlock (emptyCache :: nat Cache) # observed emptyCache
       [CallPush 7, CallSetLastFinalizedBlock 5, CallRollback, CallSetLastFinalizedBlock 5,
        CallPush 8, CallSetLastFinalizedBlock 9 :: nat cache_call])
   \<and> observed emptyCache
       [CallPush 7, CallSetLastFinalizedBlock 5, CallRollback, CallSetLastFinalizedBlock 5,
        CallPush 8, CallSetLastFinalizedBlock 9 :: nat cache_call]
     = [0, 5, 5, 5, 5, 9]"
proof -
  have h: "finalizesUpwards (LastFinalizedBlock (emptyCache :: nat Cache))
       [CallPush 7, CallSetLastFinalizedBlock 5, CallRollback, CallSetLastFinalizedBlock 5,
        CallPush 8, CallSetLastFinalizedBlock 9 :: nat cache_call]"
    by (simp add: emptyCache_def LastFinalizedBlock_def)
  have o: "observed emptyCache
       [CallPush 7, CallSetLastFinalizedBlock 5, CallRollback, CallSetLastFinalizedBlock 5,
        CallPush 8, CallSetLastFinalizedBlock 9 :: nat cache_call]
     = [0, 5, 5, 5, 5, 9]"
    by (simp add: emptyCache_def LastFinalizedBlock_def Push_def Rollback_def
        SetLastFinalizedBlock_def)
  from LastFinalizedBlock_follows_arguments
    [where c = "emptyCache :: nat Cache" and xs = "[CallPush 7, CallSetLastFinalizedBlock 5, CallRollback, CallSetLastFinalizedBlock 5,
        CallPush 8, CallSetLastFinalizedBlock 9 :: nat cache_call]"]
  have "finalizesUpwards (LastFinalizedBlock (emptyCache :: nat Cache))
       [CallPush 7, CallSetLastFinalizedBlock 5, CallRollback, CallSetLastFinalizedBlock 5,
        CallPush 8, CallSetLastFinalizedBlock 9 :: nat cache_call]
    \<longrightarrow> sorted (LastFinalizedBlock (emptyCache :: nat Cache) # observed emptyCache
       [CallPush 7, CallSetLastFinalizedBlock 5, CallRollback, CallSetLastFinalizedBlock 5,
        CallPush 8, CallSetLastFinalizedBlock 9 :: nat cache_call])"
    by blast
  with h o show ?thesis by blast
qed

text \<open>
  C3 as stated fails: \<open>SetLastFinalizedBlock(5)\<close> followed by \<open>SetLastFinalizedBlock(3)\<close>
  on a fresh cache makes \<open>LastFinalizedBlock\<close> return 5 and then 3.
\<close>

theorem LastFinalizedBlock_decreases:
  "LastFinalizedBlock (calls (emptyCache :: nat Cache)
       [CallSetLastFinalizedBlock 5, CallSetLastFinalizedBlock 3])
     < LastFinalizedBlock (calls (emptyCache :: nat Cache) [CallSetLastFinalizedBlock 5])"
  by (simp add: emptyCache_def LastFinalizedBlock_def SetLastFinalizedBlock_def)

text \<open>
  C6. Rollback isolation: from any cache, pushing the entries \<open>es\<close> (they do reach the
  processing store) and calling \<open>Rollback\<close> leaves \<open>finalStore\<close> and
  \<open>lastFinalizedBlock\<close> as they were and \<open>processingStore\<close> empty, and a
  \<open>SetLastFinalizedBlock\<close> after it adds nothing to \<open>finalStore\<close>.
\<close>

theorem Rollback_isolation:
  "processingStore (calls c (map CallPush es)) = processingStore c @ es
   \<and> finalStore (Rollback (calls c (map CallPush es))) = finalStore c
   \<and> lastFinalizedBlock (Rollback (calls c (map CallPush es))) = lastFinalizedBlock c
   \<and> processingStore (Rollback (calls c (map CallPush es))) = []
   \<and> finalStore (SetLastFinalizedBlock (Rollback (calls c (map CallPush es))) n) = finalStore c"
  by (simp add: Rollback_def SetLastFinalizedBlock_def calls_pushes_finalStore
      calls_pushes_lastFinalizedBlock calls_pushes_processingStore)

text \<open>
  C9. \<open>ShouldProcess(log)\<close> is true exactly when the log's block number is above
  \<open>lastFinalizedBlock\<close>; once \<open>SetLastFinalizedBlock(n)\<close> has made it \<open>n\<close>, it is false
  for every log with a block number up to \<open>n\<close>.
\<close>

theorem ShouldProcess_iff_above:
  "(ShouldProcess c log \<longleftrightarrow> BlockNumber log > lastFinalizedBlock c)
   \<and> (BlockNumber log \<le> n \<longrightarrow> \<not> ShouldProcess (SetLastFinalizedBlock c n) log)"
  by (auto simp: ShouldProcess_def SetLastFinalizedBlock_def)

theorem ShouldProcess_iff_above_witness:
  "BlockNumber \<lparr>BlockNumber = 100\<rparr> \<le> (100 :: u64)
   \<and> \<not> ShouldProcess (SetLastFinalizedBlock (emptyCache :: nat Cache) 100) \<lparr>BlockNumber = 100\<rparr>
   \<and> ShouldProcess (SetLastFinalizedBlock (emptyCache :: nat Cache) 100) \<lparr>BlockNumber = 101\<rparr>"
proof -
  have h: "BlockNumber \<lparr>BlockNumber = 100\<rparr> \<le> (100 :: u64)" by simp
  have a: "ShouldProcess (SetLastFinalizedBlock (emptyCache :: nat Cache) 100) \<lparr>BlockNumber = 101\<rparr>"
    using ShouldProcess_iff_above
      [where c = "SetLastFinalizedBlock (emptyCache :: nat Cache) 100"
         and log = "\<lparr>BlockNumber = 101\<rparr>"]
    by (simp add: SetLastFinalizedBlock_def)
  from h a ShouldProcess_iff_above
    [where log = "\<lparr>BlockNumber = 100\<rparr>" and n = 100 and c = "emptyCache :: nat Cache"]
  show ?thesis by blast
qed

text \<open>
  C10. \<open>Push\<close> returns \<open>nil\<close> and appends its argument, whatever it is and whatever the
  cache holds, at the end of \<open>processingStore\<close>; \<open>finalStore\<close> and \<open>lastFinalizedBlock\<close>
  stay as they were. It looks at neither the container nor \<open>lastFinalizedBlock\<close>.
\<close>

theorem Push_appends:
  "fst (Push c container) = None
   \<and> processingStore (snd (Push c container)) = processingStore c @ [container]
   \<and> finalStore (snd (Push c container)) = finalStore c
   \<and> lastFinalizedBlock (snd (Push c container)) = lastFinalizedBlock c"
  by (simp add: Push_def)

section \<open>Properties of the payload verifier\<close>

text \<open>
  With a historical vector of length zero the index of the RANDAO mix cannot be
  computed: \<open>%\<close> panics once the parent hash has been accepted and the slot read.
\<close>

lemma VerifyPayload_zero_vector_panics:
  assumes "GetLatestExecutionPayloadHeader st = Inr hdr"
    and "hdr_GetBlockHash hdr = GetParentHash payload"
    and "GetSlot st = Inr slot"
    and "EpochsPerHistoricalVector cs = 0"
  shows "VerifyPayload cs st payload = Panics"
  using assms by (simp add: VerifyPayload_def)

text \<open>
  C4. When the state accessors succeed (and the historical vector has a length, so that
  the index of rule 2 exists), \<open>VerifyPayload\<close> checks three rules in order and the first
  that fails decides: the parent hash against the block hash of the latest execution
  payload header, else an error with both hashes; the previous RANDAO against the mix at
  index \<open>SlotToEpoch(slot) mod EpochsPerHistoricalVector\<close>, else an error with both values;
  the number of withdrawals against \<open>MaxWithdrawalsPerPayload\<close>, else an error with the
  limit and the number. It returns \<open>nil\<close> exactly when the three hold.
\<close>

theorem VerifyPayload_rules_in_order:
  assumes "GetLatestExecutionPayloadHeader st = Inr hdr"
    and "GetSlot st = Inr slot"
    and "EpochsPerHistoricalVector cs \<noteq> 0"
    and "GetRandaoMixAtIndex st (SlotToEpoch cs slot mod EpochsPerHistoricalVector cs) = Inr mix"
  shows "VerifyPayload cs st payload =
           Returns
            (if GetParentHash payload \<noteq> hdr_GetBlockHash hdr
             then Some (UnfinalizedParent (GetParentHash payload) (hdr_GetBlockHash hdr))
             else if GetPrevRandao payload \<noteq> mix
             then Some (RandaoMismatch mix (GetPrevRandao payload))
             else if length (GetWithdrawals payload) > unat (MaxWithdrawalsPerPayload cs)
             then Some (TooManyWithdrawals (MaxWithdrawalsPerPayload cs)
                          (length (GetWithdrawals payload)))
             else None)
         \<and> (VerifyPayload cs st payload = Returns None \<longleftrightarrow>
              GetParentHash payload = hdr_GetBlockHash hdr
              \<and> GetPrevRandao payload = mix
              \<and> length (GetWithdrawals payload) \<le> unat (MaxWithdrawalsPerPayload cs))"
  using assms by (auto simp: VerifyPayload_def)

theorem VerifyPayload_rules_in_order_witness:
  "GetLatestExecutionPayloadHeader testState = Inr \<lparr>hdr_GetBlockHash = 0xAA\<rparr>
   \<and> GetSlot testState = Inr 64
   \<and> EpochsPerHistoricalVector testSpec \<noteq> 0
   \<and> GetRandaoMixAtIndex testState
        (SlotToEpoch testSpec 64 mod EpochsPerHistoricalVector testSpec) = Inr 7
   \<and> VerifyPayload testSpec testState (payloadWith (replicate 17 someWithdrawal))
       = Returns (Some (TooManyWithdrawals 16 17))
   \<and> VerifyPayload testSpec testState (payloadWith (replicate 16 someWithdrawal))
       = Returns None"
proof -
  have h1: "GetLatestExecutionPayloadHeader testState = Inr \<lparr>hdr_GetBlockHash = 0xAA\<rparr>"
    by (simp add: testState_def)
  have h2: "GetSlot testState = Inr 64"
    by (simp add: testState_def)
  have h3: "EpochsPerHistoricalVector testSpec \<noteq> 0"
    by (simp add: testSpec_def)
  have h4: "GetRandaoMixAtIndex testState
        (SlotToEpoch testSpec 64 mod EpochsPerHistoricalVector testSpec) = Inr 7"
    by (simp add: testState_def testSpec_def)
  have m: "unat (MaxWithdrawalsPerPayload testSpec) = 16"
    by (simp add: testSpec_def)
  have a: "VerifyPayload testSpec testState (payloadWith (replicate 17 someWithdrawal))
       = Returns (Some (TooManyWithdrawals 16 17))"
    using VerifyPayload_rules_in_order
      [OF h1 h2 h3 h4, where payload = "payloadWith (replicate 17 someWithdrawal)"] m
    by (simp add: payloadWith_def testSpec_def)
  have b: "VerifyPayload testSpec testState (payloadWith (replicate 16 someWithdrawal))
       = Returns None"
    using VerifyPayload_rules_in_order
      [OF h1 h2 h3 h4, where payload = "payloadWith (replicate 16 someWithdrawal)"] m
    by (simp add: payloadWith_def)
  from h1 h2 h3 h4 a b show ?thesis by blast
qed

section \<open>Properties of the deposit service\<close>

text \<open>
  C7, as the code has it. \<open>handleDepositEvent\<close> subtracts \<open>eth1FollowDistance\<close> from the
  block's slot in \<open>uint64\<close> arithmetic, which wraps around below zero, and checks
  nothing: it logs, asks the contract for the deposits of the resulting slot and
  enqueues them. Its error is that of \<open>GetDeposits\<close> or of \<open>EnqueueDeposits\<close>, and it
  returns \<open>nil\<close> when both succeed, also when the slot is below the follow distance.
\<close>

theorem handleDepositEvent_wraps:
  "unat (dep_GetSlot (Block e) - eth1FollowDistance s)
     = (if unat (eth1FollowDistance s) \<le> unat (dep_GetSlot (Block e))
        then unat (dep_GetSlot (Block e)) - unat (eth1FollowDistance s)
        else unat (dep_GetSlot (Block e)) + 2 ^ 64 - unat (eth1FollowDistance s))
   \<and> fst (handleDepositEvent s e)
     = (case dc_GetDeposits s (Context e) (dep_GetSlot (Block e) - eth1FollowDistance s) of
          Inl err \<Rightarrow> Some (External err)
        | Inr deposits \<Rightarrow> map_option External (sb_EnqueueDeposits s (Context e) deposits))
   \<and> take 2 (snd (handleDepositEvent s e))
     = [LogInfo (dep_GetSlot (Block e) - eth1FollowDistance s),
        GetDeposits (Context e) (dep_GetSlot (Block e) - eth1FollowDistance s)]"
proof -
  have "unat (dep_GetSlot (Block e) - eth1FollowDistance s)
     = (if unat (eth1FollowDistance s) \<le> unat (dep_GetSlot (Block e))
        then unat (dep_GetSlot (Block e)) - unat (eth1FollowDistance s)
        else unat (dep_GetSlot (Block e)) + 2 ^ 64 - unat (eth1FollowDistance s))"
    by (simp add: unat_sub_if_size word_size)
  then show ?thesis
    by (simp add: handleDepositEvent_def Let_def split: sum.split option.split)
qed

text \<open>
  C7 as stated fails: the service as \<open>NewService\<close> builds it (follow distance 1), given
  an event for a block at slot 0, asks the contract for the deposits of slot
  \<open>2^64 - 1\<close>, enqueues what it gets and returns \<open>nil\<close>.
\<close>

theorem handleDepositEvent_slot_zero:
  "handleDepositEvent
     (NewService acceptingStore slotContract)
     \<lparr>Context = (), Block = \<lparr>dep_GetSlot = 0\<rparr>\<rparr>
   = (None, [LogInfo 18446744073709551615,
             GetDeposits () 18446744073709551615,
             EnqueueDeposits () [18446744073709551615]])"
  by (simp add: handleDepositEvent_def NewService_def Let_def slotContract_def
      acceptingStore_def)

section \<open>Properties of the blockchain service\<close>

lemma ValidateExecutionPayloadOnBlk_actions:
  "set (snd (ValidateExecutionPayloadOnBlk s blk))
     \<subseteq> {ValidatePayload,
         NotifyNewPayload (blk_GetSlot blk) (GetExecutionPayload (GetBody blk))
           (kzg_ConvertCommitmentsToVersionedHashes s (GetBlobKzgCommitments (GetBody blk)))
           (GetParentBlockRoot blk)}"
  by (auto simp: ValidateExecutionPayloadOnBlk_def Let_def split: option.splits prod.splits)

lemma Wait_None: "Wait r e1 e2 = None \<longleftrightarrow> e1 = None \<and> e2 = None"
  by (auto simp: Wait_def split: option.splits race.splits)

lemma Wait_Some: "Wait r e1 e2 = Some err \<Longrightarrow> e1 = Some err \<or> e2 = Some err"
  by (auto simp: Wait_def split: option.splits race.splits)

text \<open>
  C8. \<open>ValidateExecutionPayloadOnBlk\<close> returns \<open>ErrNilBlkBody\<close> when the body answers
  \<open>IsNil()\<close> with true, and \<open>ErrNilPayload\<close> when the body's payload does. Otherwise,
  once the payload validator has accepted the block, it returns the "invalid payload"
  error exactly when the engine's \<open>NotifyNewPayload\<close> answers "not valid" with no error;
  an error of the engine call is returned as it is, is never that error, and wins over
  the validity flag; a valid answer gives \<open>nil\<close>.
\<close>

theorem ValidateExecutionPayloadOnBlk_errors:
  "(body_IsNil (GetBody blk)
      \<longrightarrow> fst (ValidateExecutionPayloadOnBlk s blk) = Some ErrNilBlkBody)
   \<and> (\<not> body_IsNil (GetBody blk) \<and> IsNil (GetExecutionPayload (GetBody blk))
      \<longrightarrow> fst (ValidateExecutionPayloadOnBlk s blk) = Some ErrNilPayload)
   \<and> (\<not> body_IsNil (GetBody blk) \<and> \<not> IsNil (GetExecutionPayload (GetBody blk))
       \<and> pv_ValidatePayload s (s_BeaconState s) blk = None
      \<longrightarrow> (fst (ValidateExecutionPayloadOnBlk s blk) = Some InvalidPayload
             \<longleftrightarrow> es_NotifyNewPayload s (blk_GetSlot blk) (GetExecutionPayload (GetBody blk))
                   (kzg_ConvertCommitmentsToVersionedHashes s (GetBlobKzgCommitments (GetBody blk)))
                   (GetParentBlockRoot blk) = (False, None))
          \<and> (fst (ValidateExecutionPayloadOnBlk s blk) = None
             \<longleftrightarrow> es_NotifyNewPayload s (blk_GetSlot blk) (GetExecutionPayload (GetBody blk))
                   (kzg_ConvertCommitmentsToVersionedHashes s (GetBlobKzgCommitments (GetBody blk)))
                   (GetParentBlockRoot blk) = (True, None))
          \<and> (\<forall>valid msg.
                es_NotifyNewPayload s (blk_GetSlot blk) (GetExecutionPayload (GetBody blk))
                   (kzg_ConvertCommitmentsToVersionedHashes s (GetBlobKzgCommitments (GetBody blk)))
                   (GetParentBlockRoot blk) = (valid, Some msg)
                \<longrightarrow> fst (ValidateExecutionPayloadOnBlk s blk) = Some (External msg)
                    \<and> External msg \<noteq> InvalidPayload))"
  by (auto simp: ValidateExecutionPayloadOnBlk_def Let_def split: option.splits prod.splits)

theorem ValidateExecutionPayloadOnBlk_errors_witness:
  "body_IsNil (GetBody blockWithNilBody)
   \<and> fst (ValidateExecutionPayloadOnBlk quietService blockWithNilBody) = Some ErrNilBlkBody
   \<and> \<not> body_IsNil (GetBody (blockWith nilPayload))
   \<and> IsNil (GetExecutionPayload (GetBody (blockWith nilPayload)))
   \<and> fst (ValidateExecutionPayloadOnBlk quietService (blockWith nilPayload)) = Some ErrNilPayload
   \<and> \<not> body_IsNil (GetBody (blockWith (payloadWith [])))
   \<and> \<not> IsNil (GetExecutionPayload (GetBody (blockWith (payloadWith []))))
   \<and> pv_ValidatePayload rejectingService (s_BeaconState rejectingService)
        (blockWith (payloadWith [])) = None
   \<and> fst (ValidateExecutionPayloadOnBlk rejectingService (blockWith (payloadWith [])))
       = Some InvalidPayload
   \<and> pv_ValidatePayload unreachableService (s_BeaconState unreachableService)
        (blockWith (payloadWith [])) = None
   \<and> fst (ValidateExecutionPayloadOnBlk unreachableService (blockWith (payloadWith [])))
       = Some (External ''connection refused'')"
proof -
  have b1: "body_IsNil (GetBody blockWithNilBody)"
    by (simp add: blockWithNilBody_def)
  have b2: "\<not> body_IsNil (GetBody (blockWith nilPayload))"
    "IsNil (GetExecutionPayload (GetBody (blockWith nilPayload)))"
    by (simp_all add: blockWith_def nilPayload_def)
  have b3: "\<not> body_IsNil (GetBody (blockWith (payloadWith [])))"
    "\<not> IsNil (GetExecutionPayload (GetBody (blockWith (payloadWith []))))"
    by (simp_all add: blockWith_def payloadWith_def)
  have v1: "pv_ValidatePayload rejectingService (s_BeaconState rejectingService)
        (blockWith (payloadWith [])) = None"
    by (simp add: rejectingService_def quietService_def)
  have v2: "pv_ValidatePayload unreachableService (s_BeaconState unreachableService)
        (blockWith (payloadWith [])) = None"
    by (simp add: unreachableService_def quietService_def)
  have e1: "es_NotifyNewPayload rejectingService (blk_GetSlot (blockWith (payloadWith [])))
       (GetExecutionPayload (GetBody (blockWith (payloadWith []))))
       (kzg_ConvertCommitmentsToVersionedHashes rejectingService
          (GetBlobKzgCommitments (GetBody (blockWith (payloadWith [])))))
       (GetParentBlockRoot (blockWith (payloadWith []))) = (False, None)"
    by (simp add: rejectingService_def quietService_def)
  have e2: "es_NotifyNewPayload unreachableService (blk_GetSlot (blockWith (payloadWith [])))
       (GetExecutionPayload (GetBody (blockWith (payloadWith []))))
       (kzg_ConvertCommitmentsToVersionedHashes unreachableService
          (GetBlobKzgCommitments (GetBody (blockWith (payloadWith [])))))
       (GetParentBlockRoot (blockWith (payloadWith []))) = (False, Some ''connection refused'')"
    by (simp add: unreachableService_def quietService_def)
  have r1: "fst (ValidateExecutionPayloadOnBlk quietService blockWithNilBody) = Some ErrNilBlkBody"
    using ValidateExecutionPayloadOnBlk_errors
      [where s = quietService and blk = blockWithNilBody] b1 by blast
  have r2: "fst (ValidateExecutionPayloadOnBlk quietService (blockWith nilPayload))
       = Some ErrNilPayload"
    using ValidateExecutionPayloadOnBlk_errors
      [where s = quietService and blk = "blockWith nilPayload"] b2 by blast
  have r3: "fst (ValidateExecutionPayloadOnBlk rejectingService (blockWith (payloadWith [])))
       = Some InvalidPayload"
    using ValidateExecutionPayloadOnBlk_errors
      [where s = rejectingService and blk = "blockWith (payloadWith [])"] b3 v1 e1 by blast
  have r4: "fst (ValidateExecutionPayloadOnBlk unreachableService (blockWith (payloadWith [])))
       = Some (External ''connection refused'')"
    using ValidateExecutionPayloadOnBlk_errors
      [where s = unreachableService and blk = "blockWith (payloadWith [])"] b3 v2 e2 by blast
  from b1 b2 b3 v1 v2 r1 r2 r3 r4 show ?thesis by blast
qed

text \<open>
  C5. In \<open>ProcessBeaconBlock\<close>, when the payload validation or the block validation of
  the first wave fails, the call returns an error of the first wave (whichever the group
  recorded first when both fail), \<open>ProcessBlobs\<close> and \<open>ProcessBlock\<close> are not called,
  and the beacon state and the availability store are as before. The call returns
  \<open>nil\<close> only when the two validations and the two functions of the second wave all
  return \<open>nil\<close>.
\<close>

theorem ProcessBeaconBlock_short_circuit:
  "(fst (ValidateExecutionPayloadOnBlk s blk) \<noteq> None
      \<or> bv_ValidateBlock s (s_BeaconState s) blk \<noteq> None
    \<longrightarrow> fst (ProcessBeaconBlock s ra rb blk blobs) \<noteq> None
        \<and> (fst (ProcessBeaconBlock s ra rb blk blobs) = fst (ValidateExecutionPayloadOnBlk s blk)
           \<or> fst (ProcessBeaconBlock s ra rb blk blobs)
               = map_option External (bv_ValidateBlock s (s_BeaconState s) blk))
        \<and> fst (snd (ProcessBeaconBlock s ra rb blk blobs)) = s
        \<and> ProcessBlobs \<notin> set (snd (snd (ProcessBeaconBlock s ra rb blk blobs)))
        \<and> ProcessBlock \<notin> set (snd (snd (ProcessBeaconBlock s ra rb blk blobs))))
   \<and> (fst (ProcessBeaconBlock s ra rb blk blobs) = None
    \<longrightarrow> fst (ValidateExecutionPayloadOnBlk s blk) = None
        \<and> bv_ValidateBlock s (s_BeaconState s) blk = None
        \<and> fst (sp_ProcessBlobs s (s_AvailabilityStore s) blk blobs) = None
        \<and> fst (sp_ProcessBlock s (s_BeaconState s) blk) = None)"
proof -
  obtain payloadErr payloadCalls
    where v: "ValidateExecutionPayloadOnBlk s blk = (payloadErr, payloadCalls)"
    by (cases "ValidateExecutionPayloadOnBlk s blk")
  obtain blobsErr avs' where b: "sp_ProcessBlobs s (s_AvailabilityStore s) blk blobs = (blobsErr, avs')"
    by (cases "sp_ProcessBlobs s (s_AvailabilityStore s) blk blobs")
  obtain processErr st' where p: "sp_ProcessBlock s (s_BeaconState s) blk = (processErr, st')"
    by (cases "sp_ProcessBlock s (s_BeaconState s) blk")
  let ?blockErr = "map_option External (bv_ValidateBlock s (s_BeaconState s) blk)"
  have calls: "ProcessBlobs \<notin> set payloadCalls" "ProcessBlock \<notin> set payloadCalls"
    using ValidateExecutionPayloadOnBlk_actions [of s blk] v by auto
  show ?thesis
  proof (cases "Wait ra payloadErr ?blockErr")
    case None
    then have ok: "payloadErr = None" "bv_ValidateBlock s (s_BeaconState s) blk = None"
      by (simp_all add: Wait_None)
    have "fst (ProcessBeaconBlock s ra rb blk blobs)
            = Wait rb (map_option External blobsErr) (map_option External processErr)"
      using None by (simp add: ProcessBeaconBlock_def Let_def v b p)
    then show ?thesis
      using ok by (simp add: v b p Wait_None)
  next
    case (Some err)
    then have res: "ProcessBeaconBlock s ra rb blk blobs = (Some err, s, payloadCalls @ [ValidateBlock])"
      by (simp add: ProcessBeaconBlock_def Let_def v)
    from Some have "payloadErr = Some err \<or> ?blockErr = Some err"
      by (rule Wait_Some)
    then show ?thesis
      using res calls by (auto simp: v)
  qed
qed

theorem ProcessBeaconBlock_short_circuit_witness:
  "fst (ValidateExecutionPayloadOnBlk rejectingService (blockWith (payloadWith []))) \<noteq> None
   \<and> ProcessBeaconBlock rejectingService FirstRecorded FirstRecorded (blockWith (payloadWith [])) ()
       = (Some InvalidPayload, rejectingService,
          [ValidatePayload, NotifyNewPayload 65 (payloadWith []) [] 1, ValidateBlock])
   \<and> fst (ProcessBeaconBlock quietService FirstRecorded FirstRecorded (blockWith (payloadWith [])) ())
       = None
   \<and> snd (snd (ProcessBeaconBlock quietService FirstRecorded FirstRecorded
                 (blockWith (payloadWith [])) ()))
       = [ValidatePayload, NotifyNewPayload 65 (payloadWith []) [] 1, ValidateBlock,
          ProcessBlobs, ProcessBlock]
   \<and> fst (sp_ProcessBlock quietService (s_BeaconState quietService) (blockWith (payloadWith [])))
       = None
   \<and> bv_ValidateBlock failingService (s_BeaconState failingService) (blockWith (payloadWith []))
       \<noteq> None
   \<and> ProcessBeaconBlock failingService SecondRecorded FirstRecorded (blockWith (payloadWith [])) ()
       = (Some (External ''bad block''), failingService,
          [ValidatePayload, NotifyNewPayload 65 (payloadWith []) [] 1, ValidateBlock])"
proof -
  have fv: "ValidateExecutionPayloadOnBlk failingService (blockWith (payloadWith []))
       = (Some InvalidPayload, [ValidatePayload, NotifyNewPayload 65 (payloadWith []) [] 1])"
    by (simp add: ValidateExecutionPayloadOnBlk_def failingService_def rejectingService_def
        quietService_def blockWith_def payloadWith_def)
  have fb: "bv_ValidateBlock failingService (s_BeaconState failingService)
       (blockWith (payloadWith [])) = Some ''bad block''"
    by (simp add: failingService_def)
  have fh: "bv_ValidateBlock failingService (s_BeaconState failingService)
       (blockWith (payloadWith [])) \<noteq> None"
    by (simp add: fb)
  have fe: "fst (ProcessBeaconBlock failingService SecondRecorded FirstRecorded
       (blockWith (payloadWith [])) ()) = Some (External ''bad block'')"
    by (simp add: ProcessBeaconBlock_def Let_def fv fb Wait_def)
  have fc: "snd (snd (ProcessBeaconBlock failingService SecondRecorded FirstRecorded
       (blockWith (payloadWith [])) ()))
       = [ValidatePayload, NotifyNewPayload 65 (payloadWith []) [] 1, ValidateBlock]"
    by (simp add: ProcessBeaconBlock_def Let_def fv fb Wait_def)
  have f: "ProcessBeaconBlock failingService SecondRecorded FirstRecorded (blockWith (payloadWith [])) ()
       = (Some (External ''bad block''), failingService,
          [ValidatePayload, NotifyNewPayload 65 (payloadWith []) [] 1, ValidateBlock])"
    using ProcessBeaconBlock_short_circuit
      [where s = failingService and blk = "blockWith (payloadWith [])"
         and ra = SecondRecorded and rb = FirstRecorded and blobs = "()"] fh fe fc
    by (auto simp: prod_eq_iff)
  have v: "ValidateExecutionPayloadOnBlk rejectingService (blockWith (payloadWith []))
       = (Some InvalidPayload, [ValidatePayload, NotifyNewPayload 65 (payloadWith []) [] 1])"
    by (simp add: ValidateExecutionPayloadOnBlk_def rejectingService_def quietService_def
        blockWith_def payloadWith_def)
  have h: "fst (ValidateExecutionPayloadOnBlk rejectingService (blockWith (payloadWith []))) \<noteq> None"
    by (simp add: v)
  have bv: "bv_ValidateBlock rejectingService (s_BeaconState rejectingService)
       (blockWith (payloadWith [])) = None"
    by (simp add: rejectingService_def quietService_def)
  have calls: "snd (snd (ProcessBeaconBlock rejectingService FirstRecorded FirstRecorded
                 (blockWith (payloadWith [])) ()))
       = [ValidatePayload, NotifyNewPayload 65 (payloadWith []) [] 1, ValidateBlock]"
    by (simp add: ProcessBeaconBlock_def Let_def v bv Wait_def)
  have a: "ProcessBeaconBlock rejectingService FirstRecorded FirstRecorded (blockWith (payloadWith [])) ()
       = (Some InvalidPayload, rejectingService,
          [ValidatePayload, NotifyNewPayload 65 (payloadWith []) [] 1, ValidateBlock])"
    using ProcessBeaconBlock_short_circuit
      [where s = rejectingService and blk = "blockWith (payloadWith [])"
         and ra = FirstRecorded and rb = FirstRecorded and blobs = "()"] h calls
    by (auto simp: v bv prod_eq_iff)
  have q: "ValidateExecutionPayloadOnBlk quietService (blockWith (payloadWith []))
       = (None, [ValidatePayload, NotifyNewPayload 65 (payloadWith []) [] 1])"
    by (simp add: ValidateExecutionPayloadOnBlk_def quietService_def
        blockWith_def payloadWith_def)
  have ok: "ProcessBeaconBlock quietService FirstRecorded FirstRecorded (blockWith (payloadWith [])) ()
       = (None,
          quietService\<lparr>s_BeaconState :=
              snd (sp_ProcessBlock quietService (s_BeaconState quietService) (blockWith (payloadWith []))),
            s_AvailabilityStore := 1\<rparr>,
          [ValidatePayload, NotifyNewPayload 65 (payloadWith []) [] 1, ValidateBlock,
           ProcessBlobs, ProcessBlock])"
    by (simp add: ProcessBeaconBlock_def Let_def q) (simp add: quietService_def Wait_def)
  have n: "fst (ProcessBeaconBlock quietService FirstRecorded FirstRecorded
       (blockWith (payloadWith [])) ()) = None"
    by (simp add: ok)
  have c: "fst (sp_ProcessBlock quietService (s_BeaconState quietService) (blockWith (payloadWith [])))
       = None"
    using ProcessBeaconBlock_short_circuit
      [where s = quietService and blk = "blockWith (payloadWith [])"
         and ra = FirstRecorded and rb = FirstRecorded and blobs = "()"] n
    by blast
  from h a n c ok fh f show ?thesis by simp
qed

subsection \<open>The deferred forkchoice update\<close>

text \<open>
  What holds of \<open>PostBlockProcess\<close> on every path: the body itself never calls
  \<open>sendPostBlockFCU\<close>, nor does \<open>sendPostBlockFCU\<close> call itself, so the deferred call is
  the only one and everything after it is what \<open>sendPostBlockFCU\<close> does. The argument
  is the variable \<open>payload\<close> at the return: the \<open>nil\<close> interface when the block or its
  body answered \<open>IsNil()\<close> with true, the value of \<open>GetExecutionPayload()\<close> on every
  later path.
\<close>

lemma postBlockBody_payload:
  "fst (snd (postBlockBody s blk))
     = (if blk_IsNil blk \<or> body_IsNil (GetBody blk) then None
        else Some (GetExecutionPayload (GetBody blk)))"
  by (simp add: postBlockBody_def Let_def split: option.splits)

lemma postBlockBody_never_sends:
  "filter isSendPostBlockFCU (snd (snd (postBlockBody s blk))) = []"
  by (simp add: postBlockBody_def Let_def isSendPostBlockFCU_def split: option.splits)

lemma sendPostBlockFCU_never_sends:
  "filter isSendPostBlockFCU (sendPostBlockFCU s st payload) = []"
  by (simp add: sendPostBlockFCU_def sendFCU_def Let_def isSendPostBlockFCU_def
      split: option.splits sum.splits)

lemma PostBlockProcess_sends_once:
  "filter isSendPostBlockFCU (snd (PostBlockProcess s blk))
     = [SendPostBlockFCU (if blk_IsNil blk \<or> body_IsNil (GetBody blk) then None
                          else Some (GetExecutionPayload (GetBody blk)))]
   \<and> snd (PostBlockProcess s blk)
     = snd (snd (postBlockBody s blk))
       @ SendPostBlockFCU (fst (snd (postBlockBody s blk)))
       # sendPostBlockFCU s (s_BeaconState s) (fst (snd (postBlockBody s blk)))
   \<and> fst (PostBlockProcess s blk) = fst (postBlockBody s blk)"
proof -
  obtain err payload acts where b: "postBlockBody s blk = (err, payload, acts)"
    by (cases "postBlockBody s blk")
  have "filter isSendPostBlockFCU acts = []"
    using postBlockBody_never_sends [of s blk] by (simp add: b)
  moreover have "payload = (if blk_IsNil blk \<or> body_IsNil (GetBody blk) then None
                          else Some (GetExecutionPayload (GetBody blk)))"
    using postBlockBody_payload [of s blk] by (simp add: b)
  ultimately show ?thesis
    by (simp add: PostBlockProcess_def b sendPostBlockFCU_never_sends)
       (simp add: isSendPostBlockFCU_def)
qed

text \<open>
  The head hash that \<open>sendPostBlockFCU\<close> sends when the state's latest execution payload
  can be read: the block hash of that payload for the \<open>nil\<close> interface, and the block
  hash of the payload it was given for every other value, whatever that value answers
  to \<open>IsNil()\<close>.
\<close>

lemma sendPostBlockFCU_head:
  assumes "GetLatestExecutionPayload st = Inr latest"
  shows "notifiedHead (sendPostBlockFCU s st payload)
           = Some (case payload of None \<Rightarrow> GetBlockHash latest | Some p \<Rightarrow> GetBlockHash p)"
  using assms
  by (simp add: sendPostBlockFCU_def sendFCU_def Let_def split: option.splits)

text \<open>
  C1 at a block whose body holds a payload that answers \<open>IsNil()\<close> with true.
  \<open>PostBlockProcess\<close> returns \<open>nil\<close> at the third early exit and the deferred call is
  made, once and last; but the variable holds that payload, not the \<open>nil\<close> interface,
  and \<open>sendPostBlockFCU\<close>, which tests \<open>payload != nil\<close> where the caller tested
  \<open>payload.IsNil()\<close>, takes the head hash from it: the update is sent with head
  \<open>0\<close>, the block hash read from the nil payload, and not with \<open>0xAA\<close>, the block hash of
  the state's latest execution payload.
\<close>

theorem PostBlockProcess_nil_payload_head:
  "PostBlockProcess quietService (blockWith nilPayload)
     = (None,
        [SendPostBlockFCU (Some nilPayload),
         Println ''LIGHT SEND FCU'',
         NotifyForkchoiceUpdate
           \<lparr>State = \<lparr>HeadBlockHash = 0, SafeBlockHash = 0xAA, FinalizedBlockHash = 0xAA\<rparr>,
            ForkVersion = Deneb\<rparr>])
   \<and> GetLatestExecutionPayload (s_BeaconState quietService) = Inr latestPayload
   \<and> GetBlockHash latestPayload = 0xAA"
  by (simp add: PostBlockProcess_def postBlockBody_def sendPostBlockFCU_def sendFCU_def
      quietService_def blockWith_def nilPayload_def testState_def latestPayload_def Let_def)

end
